theory Spec2Isabelle
  imports Main
begin

section \<open>Share-link creation workflow of \<open>share-section.tsx\<close>\<close>

text \<open>
  The development embeds the logic of the React component \<open>ShareSection\<close>
  (\<open>src/components/features/create-share/share-section.tsx\<close>): the error classifier
  \<open>getUserFriendlyError\<close>, the local share list maintained by \<open>saveToLocalStorage\<close>,
  and the handlers \<open>handleShare\<close> and \<open>handleRetry\<close>. Rendering is not modelled.

  Modelling decisions:
  \<^item> JavaScript strings are \<open>string\<close>; \<open>toLowerCase\<close> maps the letters \<open>A\<close>-\<open>Z\<close> to
    \<open>a\<close>-\<open>z\<close> and leaves every other character alone (the ASCII part of the Unicode
    mapping).
  \<^item> A value that JavaScript tests for truthiness is an option or a small datatype, and the
    test is written out (\<open>undefined\<close>, \<open>null\<close> and the empty string are falsy).
  \<^item> The component state (the three \<open>useState\<close> cells and the \<open>useLocalStorage\<close> list) is
    one record; a handler takes the state and returns the new one.
  \<^item> The \<open>await\<close> in \<open>handleShare\<close> splits the handler into the part that runs before the
    request is sent and the part that runs when the promise settles.
\<close>

subsection \<open>Strings\<close>

definition upper_letters :: string where
  "upper_letters = ''ABCDEFGHIJKLMNOPQRSTUVWXYZ''"

definition lower_letters :: string where
  "lower_letters = ''abcdefghijklmnopqrstuvwxyz''"

definition toLowerChar :: "char \<Rightarrow> char" where
  "toLowerChar c = (case map_of (zip upper_letters lower_letters) c of None \<Rightarrow> c | Some l \<Rightarrow> l)"

definition toLowerCase :: "string \<Rightarrow> string" where
  "toLowerCase s = map toLowerChar s"

primrec startsWith :: "string \<Rightarrow> string \<Rightarrow> bool" where
  "startsWith s [] = True"
| "startsWith s (p # ps) = (case s of [] \<Rightarrow> False | c # cs \<Rightarrow> c = p \<and> startsWith cs ps)"

text \<open>\<open>String.prototype.includes\<close> (here \<open>includes_str\<close>): the search string occurs at some
  position.\<close>

primrec includes_str :: "string \<Rightarrow> string \<Rightarrow> bool" where
  "includes_str [] p = (p = [])"
| "includes_str (c # cs) p = (startsWith (c # cs) p \<or> includes_str cs p)"

text \<open>
  Reading "in any letter casing": each character of the first string is the corresponding
  character of the second or its upper-case form.
\<close>

definition toUpperChar :: "char \<Rightarrow> char" where
  "toUpperChar c = (case map_of (zip lower_letters upper_letters) c of None \<Rightarrow> c | Some u \<Rightarrow> u)"

definition any_casing_of :: "string \<Rightarrow> string \<Rightarrow> bool" where
  "any_casing_of s w = list_all2 (\<lambda>a b. a = b \<or> a = toUpperChar b) s w"

text \<open>Decimal rendering of a number, as a template literal does for \<open>Date.now()\<close>.\<close>

definition digit_char :: "nat \<Rightarrow> char" where
  "digit_char d = ''0123456789'' ! d"

fun string_of_nat :: "nat \<Rightarrow> string" where
  "string_of_nat n =
     (if n < 10 then [digit_char n]
      else string_of_nat (n div 10) @ [digit_char (n mod 10)])"

declare string_of_nat.simps [simp del]

subsection \<open>The error classifier\<close>

text \<open>
  The value found at \<open>error.response?.data?.error\<close>. The handler treats it as \<open>any\<close>; only
  the distinction between a non-empty string and everything else is observed.
\<close>

datatype js_value =
    JUndefined
  | JNull
  | JBool bool
  | JNumber int
  | JString string
  | JObject

record http_response =
  status :: int
  data_error :: js_value

text \<open>
  The object caught by \<open>handleShare\<close>: an axios error. \<open>response\<close> is absent when no
  response was received; \<open>message\<close> and \<open>code\<close> are fields the classifier never reads.
\<close>

record failure =
  response :: "http_response option"
  message :: string
  code :: "string option"

definition truthy :: "js_value \<Rightarrow> bool" where
  "truthy v =
     (case v of
        JUndefined \<Rightarrow> False
      | JNull \<Rightarrow> False
      | JBool b \<Rightarrow> b
      | JNumber n \<Rightarrow> n \<noteq> 0
      | JString s \<Rightarrow> s \<noteq> []
      | JObject \<Rightarrow> True)"

definition typeof_string :: "js_value \<Rightarrow> bool" where
  "typeof_string v = (case v of JString s \<Rightarrow> True | _ \<Rightarrow> False)"

definition string_value :: "js_value \<Rightarrow> string" where
  "string_value v = (case v of JString s \<Rightarrow> s | _ \<Rightarrow> [])"

definition getUserFriendlyError :: "'a failure_scheme \<Rightarrow> string" where
  "getUserFriendlyError error =
     (case response error of
        None \<Rightarrow> ''Unable to connect. Please check your internet connection.''
      | Some r \<Rightarrow>
          if status r = 403 \<or> status r = 401 then
            ''You don't have permission to share this file.''
          else if status r \<ge> 500 then
            ''Server is temporarily unavailable. Please try again later.''
          else
            (let apiError = data_error r in
             if truthy apiError \<and> typeof_string apiError then
               if includes_str (toLowerCase (string_value apiError)) ''timeout'' then
                 ''Request timed out. Please try again.''
               else if includes_str (toLowerCase (string_value apiError)) ''not found'' then
                 ''File not found. It may have been deleted.''
               else string_value apiError
             else ''Failed to create share link. Please try again.''))"

subsection \<open>Data of the component\<close>

text \<open>
  The body of a successful response, \<open>response.data\<close>: the declared type of the \<open>shareData\<close>
  cell together with \<open>share_id\<close>, which \<open>saveToLocalStorage\<close> reads. A resolved request
  carries a body of this shape; an optional field that is absent is \<open>None\<close>.
\<close>

record share_result =
  share_url :: string
  pass_code :: "string option"
  is_existing :: "bool option"
  share_id :: "string option"

text \<open>
  \<open>LocalShare\<close> is declared in \<open>../my-activity/types\<close>; its fields are those of the object
  literal in \<open>saveToLocalStorage\<close> (\<open>id\<close>, \<open>file_name\<close>, \<open>share_url\<close>, \<open>pass_code\<close>,
  \<open>timestamp\<close>, \<open>file_id\<close>), prefixed here with \<open>ls_\<close>.
\<close>

record LocalShare =
  ls_id :: string
  ls_file_name :: string
  ls_share_url :: string
  ls_pass_code :: "string option"
  ls_timestamp :: nat
  ls_file_id :: string

text \<open>\<open>taskData = task.data.task?.task\<close>, the part of the props the handlers read.\<close>

record task_data =
  file_id :: "string option"
  file_name :: "string option"
  progress :: "nat option"

record share_state =
  shareLoading :: bool
  shareData :: "share_result option"
  shareError :: "string option"
  shares :: "LocalShare list"

definition initial_state :: "LocalShare list \<Rightarrow> share_state" where
  "initial_state stored =
     \<lparr>shareLoading = False, shareData = None, shareError = None, shares = stored\<rparr>"

text \<open>Truthiness of an optional string and of an optional boolean.\<close>

definition truthy_str :: "string option \<Rightarrow> bool" where
  "truthy_str v = (case v of None \<Rightarrow> False | Some s \<Rightarrow> s \<noteq> [])"

definition truthy_bool :: "bool option \<Rightarrow> bool" where
  "truthy_bool v = (case v of None \<Rightarrow> False | Some b \<Rightarrow> b)"

text \<open>\<open>a || b\<close> on an optional string with a string default.\<close>

definition or_else :: "string option \<Rightarrow> string \<Rightarrow> string" where
  "or_else v d = (case v of None \<Rightarrow> d | Some s \<Rightarrow> if s = [] then d else s)"

text \<open>\<open>taskData?.file_id\<close> and \<open>taskData?.file_name\<close>.\<close>

definition task_file_id :: "task_data option \<Rightarrow> string option" where
  "task_file_id td = (case td of None \<Rightarrow> None | Some t \<Rightarrow> file_id t)"

definition task_file_name :: "task_data option \<Rightarrow> string option" where
  "task_file_name td = (case td of None \<Rightarrow> None | Some t \<Rightarrow> file_name t)"

subsection \<open>The local share list\<close>

text \<open>
  The object literal of \<open>saveToLocalStorage\<close>. \<open>Date.now()\<close> is read once for the fallback
  id and once for the timestamp: \<open>now_id\<close> and \<open>now_ts\<close> are the two readings.
\<close>

definition newShare :: "task_data option \<Rightarrow> nat \<Rightarrow> nat \<Rightarrow> share_result \<Rightarrow> string \<Rightarrow> LocalShare" where
  "newShare td now_id now_ts shareResult fileId =
     \<lparr>ls_id = or_else (share_id shareResult) (''share-'' @ string_of_nat now_id),
      ls_file_name = or_else (task_file_name td) ''Unknown File'',
      ls_share_url = share_url shareResult,
      ls_pass_code = pass_code shareResult,
      ls_timestamp = now_ts,
      ls_file_id = fileId\<rparr>"

text \<open>
  The list that the second half of \<open>saveToLocalStorage\<close> asks for: \<open>shares.some(...)\<close> and the
  guarded \<open>[newShare, ...shares]\<close>. The list the handler closes over is the list of the
  state it runs in (one handler runs at a time).
\<close>

definition append_share :: "LocalShare \<Rightarrow> string \<Rightarrow> LocalShare list \<Rightarrow> LocalShare list" where
  "append_share share fileId stored =
     (let alreadyExists = list_ex (\<lambda>s. ls_file_id s = fileId) stored
      in if \<not> alreadyExists then share # stored else stored)"

text \<open>
  \<open>setShares\<close> is the setter of the \<open>useLocalStorage\<close> hook of \<open>primereact/hooks\<close>, which is
  not part of this repository: it writes the list to the browser's storage, and the write
  can throw. \<open>store_write\<close> says what the setter does when it is called: store the list, or
  throw; for a throw it carries the object thrown and the list the hook holds afterwards.
\<close>

datatype store_write = Written | WriteThrows failure "LocalShare list"

text \<open>
  A statement that throws is \<open>Inl\<close> of the object thrown and of the state at the throw;
  one that completes is \<open>Inr\<close> of the state.
\<close>

definition setShares ::
  "store_write \<Rightarrow> LocalShare list \<Rightarrow> share_state \<Rightarrow> (failure \<times> share_state) + share_state" where
  "setShares write new st =
     (case write of
        Written \<Rightarrow> Inr (st\<lparr>shares := new\<rparr>)
      | WriteThrows thrown left \<Rightarrow> Inl (thrown, st\<lparr>shares := left\<rparr>))"

definition saveToLocalStorage ::
  "task_data option \<Rightarrow> nat \<Rightarrow> nat \<Rightarrow> store_write \<Rightarrow> share_result \<Rightarrow> string \<Rightarrow> share_state
     \<Rightarrow> (failure \<times> share_state) + share_state" where
  "saveToLocalStorage td now_id now_ts write shareResult fileId st =
     (let share = newShare td now_id now_ts shareResult fileId;
          alreadyExists = list_ex (\<lambda>s. ls_file_id s = fileId) (shares st)
      in if \<not> alreadyExists then setShares write (share # shares st) st else Inr st)"

subsection \<open>The handlers\<close>

text \<open>How the promise of \<open>axios.post\<close> settles.\<close>

datatype outcome = Resolved share_result | Rejected failure

text \<open>
  \<open>handleShare\<close> up to the \<open>await\<close>: the guard on \<open>taskData?.file_id\<close>, then
  \<open>setShareLoading(true)\<close> and \<open>setShareError(null)\<close>. The second component is the \<open>id\<close> of
  the body posted to \<open>/share\<close>, or \<open>None\<close> when the handler returns without a request.
\<close>

definition handleShare_begin :: "task_data option \<Rightarrow> share_state \<Rightarrow> share_state \<times> string option" where
  "handleShare_begin td st =
     (if \<not> truthy_str (task_file_id td) then
        (st\<lparr>shareError := Some ''File ID not available. Task may not be completed yet.''\<rparr>, None)
      else
        (st\<lparr>shareLoading := True, shareError := None\<rparr>, task_file_id td))"

text \<open>
  The \<open>try\<close> block from the \<open>await\<close> on. A rejected promise throws at the \<open>await\<close>; a resolved
  one is followed by \<open>setShareData\<close> and, for a result that is not an existing share, by
  \<open>saveToLocalStorage\<close>, which can throw in turn.
\<close>

definition handleShare_try ::
  "task_data option \<Rightarrow> nat \<Rightarrow> nat \<Rightarrow> store_write \<Rightarrow> string \<Rightarrow> outcome \<Rightarrow> share_state
     \<Rightarrow> (failure \<times> share_state) + share_state" where
  "handleShare_try td now_id now_ts write fileId out st =
     (case out of
        Rejected error \<Rightarrow> Inl (error, st)
      | Resolved shareResult \<Rightarrow>
          (let st1 = st\<lparr>shareData := Some shareResult\<rparr>
           in if \<not> truthy_bool (is_existing shareResult)
              then saveToLocalStorage td now_id now_ts write shareResult fileId st1
              else Inr st1))"

text \<open>
  \<open>handleShare\<close> after the \<open>await\<close>: the \<open>try\<close> block, the \<open>catch\<close>, which classifies whatever
  was thrown, and the \<open>finally\<close>.
\<close>

definition handleShare_settle ::
  "task_data option \<Rightarrow> nat \<Rightarrow> nat \<Rightarrow> store_write \<Rightarrow> string \<Rightarrow> outcome \<Rightarrow> share_state
     \<Rightarrow> share_state" where
  "handleShare_settle td now_id now_ts write fileId out st =
     (let st2 = (case handleShare_try td now_id now_ts write fileId out st of
                   Inr st1 \<Rightarrow> st1
                 | Inl (error, st1) \<Rightarrow> st1\<lparr>shareError := Some (getUserFriendlyError error)\<rparr>)
      in st2\<lparr>shareLoading := False\<rparr>)"

text \<open>
  A whole invocation. \<open>out\<close> is how the promise of \<open>axios.post\<close> settles if the request
  is sent, \<open>write\<close> what the setter of the stored list does if it is called. The result is
  the final state and the list of the file ids posted to \<open>/share\<close>.
\<close>

definition handleShare ::
  "task_data option \<Rightarrow> outcome \<Rightarrow> store_write \<Rightarrow> nat \<Rightarrow> nat \<Rightarrow> share_state
     \<Rightarrow> share_state \<times> string list" where
  "handleShare td out write now_id now_ts st =
     (case handleShare_begin td st of
        (st1, None) \<Rightarrow> (st1, [])
      | (st1, Some fileId) \<Rightarrow>
          (handleShare_settle td now_id now_ts write fileId out st1, [fileId]))"

text \<open>\<open>handleRetry\<close>: \<open>setShareError(null)\<close>, then \<open>handleShare()\<close>.\<close>

definition handleRetry_begin :: "task_data option \<Rightarrow> share_state \<Rightarrow> share_state \<times> string option" where
  "handleRetry_begin td st = handleShare_begin td (st\<lparr>shareError := None\<rparr>)"

definition handleRetry ::
  "task_data option \<Rightarrow> outcome \<Rightarrow> store_write \<Rightarrow> nat \<Rightarrow> nat \<Rightarrow> share_state
     \<Rightarrow> share_state \<times> string list" where
  "handleRetry td out write now_id now_ts st =
     handleShare td out write now_id now_ts (st\<lparr>shareError := None\<rparr>)"

subsection \<open>The workflow status\<close>

text \<open>
  The component keeps no status field, and its cells do not determine one. What the code
  does determine is the way an invocation of \<open>handleShare\<close> leaves: by the early \<open>return\<close>
  of the guard, by the end of the \<open>try\<close> block, or through the \<open>catch\<close>.
\<close>

datatype exit_path = Refused | Completed | Caught

definition handleShare_exit ::
  "task_data option \<Rightarrow> outcome \<Rightarrow> store_write \<Rightarrow> nat \<Rightarrow> nat \<Rightarrow> share_state \<Rightarrow> exit_path" where
  "handleShare_exit td out write now_id now_ts st =
     (case handleShare_begin td st of
        (st1, None) \<Rightarrow> Refused
      | (st1, Some fileId) \<Rightarrow>
          (case handleShare_try td now_id now_ts write fileId out st1 of
             Inr st2 \<Rightarrow> Completed
           | Inl thrown \<Rightarrow> Caught))"

text \<open>
  The status of the workflow is the one of the specification's state machine
  (\<open>Idle \<rightarrow> Loading \<rightarrow> {Succeeded, Failed}\<close>), driven by the exits of the handler: a refused
  invocation leaves the status as it was, one that completes its \<open>try\<close> block makes it
  \<open>Succeeded\<close>, one that goes through the \<open>catch\<close> makes it \<open>Failed\<close>. \<open>Loading\<close> is the status
  while the request is pending, between \<open>handleShare_begin\<close> and \<open>handleShare_settle\<close>.
\<close>

datatype status = Idle | Loading | Succeeded | Failed

definition status_after :: "exit_path \<Rightarrow> status \<Rightarrow> status" where
  "status_after p s = (case p of Refused \<Rightarrow> s | Completed \<Rightarrow> Succeeded | Caught \<Rightarrow> Failed)"

text \<open>A run of the workflow: a sequence of invocations, each with the props, the backend's
  answer, the behaviour of the storage and the clock readings of its time.\<close>

datatype action = Share | Retry

record invocation =
  inv_action :: action
  inv_task :: "task_data option"
  inv_outcome :: outcome
  inv_write :: store_write
  inv_now_id :: nat
  inv_now_ts :: nat

definition invoke :: "invocation \<Rightarrow> share_state \<Rightarrow> share_state" where
  "invoke i st =
     fst ((case inv_action i of Share \<Rightarrow> handleShare | Retry \<Rightarrow> handleRetry)
            (inv_task i) (inv_outcome i) (inv_write i) (inv_now_id i) (inv_now_ts i) st)"

definition invoke_exit :: "invocation \<Rightarrow> share_state \<Rightarrow> exit_path" where
  "invoke_exit i st =
     handleShare_exit (inv_task i) (inv_outcome i) (inv_write i) (inv_now_id i) (inv_now_ts i)
       (case inv_action i of Share \<Rightarrow> st | Retry \<Rightarrow> st\<lparr>shareError := None\<rparr>)"

definition run :: "invocation list \<Rightarrow> share_state \<Rightarrow> share_state" where
  "run invs st = foldl (\<lambda>s i. invoke i s) st invs"

text \<open>The status after a run that starts in state \<open>st\<close> with status \<open>s\<close>.\<close>

primrec run_status :: "invocation list \<Rightarrow> share_state \<Rightarrow> status \<Rightarrow> status" where
  "run_status [] st s = s"
| "run_status (i # invs) st s = run_status invs (invoke i st) (status_after (invoke_exit i st) s)"

text \<open>An invocation succeeds when the file id is there and the promise resolves.\<close>

definition succeeds :: "invocation \<Rightarrow> bool" where
  "succeeds i =
     (truthy_str (task_file_id (inv_task i)) \<and>
      (case inv_outcome i of Resolved r \<Rightarrow> True | Rejected e \<Rightarrow> False))"

text \<open>The setter of the stored list does not throw in this invocation.\<close>

definition write_ok :: "invocation \<Rightarrow> bool" where
  "write_ok i = (case inv_write i of Written \<Rightarrow> True | WriteThrows thrown left \<Rightarrow> False)"

text \<open>An invocation gets past the guard, so that its request is sent.\<close>

definition sent :: "invocation \<Rightarrow> bool" where
  "sent i = truthy_str (task_file_id (inv_task i))"

section \<open>Properties\<close>

subsection \<open>Evaluation and string lemmas\<close>

lemmas str_eval =
  toLowerCase_def toLowerChar_def toUpperChar_def upper_letters_def lower_letters_def
  any_casing_of_def digit_char_def

lemma startsWith_iff: "startsWith s p \<longleftrightarrow> (\<exists>post. s = p @ post)"
  by (induction p arbitrary: s) (auto split: list.splits)

lemma includes_str_iff: "includes_str s p \<longleftrightarrow> (\<exists>pre post. s = pre @ p @ post)"
proof (induction s)
  case Nil
  then show ?case by auto
next
  case (Cons c cs)
  show ?case
  proof
    assume "includes_str (c # cs) p"
    then consider "startsWith (c # cs) p" | "includes_str cs p" by auto
    then show "\<exists>pre post. c # cs = pre @ p @ post"
    proof cases
      case 1
      then obtain post where "c # cs = p @ post" by (auto simp: startsWith_iff)
      then have "c # cs = [] @ p @ post" by simp
      then show ?thesis by blast
    next
      case 2
      then obtain pre post where "cs = pre @ p @ post" using Cons.IH by blast
      then have "c # cs = (c # pre) @ p @ post" by simp
      then show ?thesis by blast
    qed
  next
    assume "\<exists>pre post. c # cs = pre @ p @ post"
    then obtain pre post where e: "c # cs = pre @ p @ post" by blast
    show "includes_str (c # cs) p"
    proof (cases pre)
      case Nil
      with e have "startsWith (c # cs) p" by (auto simp: startsWith_iff)
      then show ?thesis by simp
    next
      case (Cons a pre')
      with e have "cs = pre' @ p @ post" by simp
      then have "includes_str cs p" using Cons.IH by blast
      then show ?thesis by simp
    qed
  qed
qed

lemma toLowerChar_toUpperChar: "toLowerChar (toUpperChar b) = toLowerChar b"
  by (simp add: toLowerChar_def toUpperChar_def upper_letters_def lower_letters_def)

lemma any_casing_of_toLowerCase: "any_casing_of s w \<Longrightarrow> toLowerCase s = toLowerCase w"
  unfolding any_casing_of_def toLowerCase_def
  by (induction s w rule: list_all2_induct) (auto simp: toLowerChar_toUpperChar)

lemma toLowerCase_append: "toLowerCase (a @ b) = toLowerCase a @ toLowerCase b"
  by (simp add: toLowerCase_def)

lemma includes_any_casing:
  assumes "any_casing_of mid w" and "toLowerCase w = w"
  shows "includes_str (toLowerCase (pre @ mid @ post)) w"
proof -
  have "toLowerCase (pre @ mid @ post) = toLowerCase pre @ w @ toLowerCase post"
    using assms by (simp add: toLowerCase_append any_casing_of_toLowerCase)
  then show ?thesis unfolding includes_str_iff by blast
qed

subsection \<open>The error classifier\<close>

text \<open>
  C7. A failure with no response is classified as the connection message, whatever its
  other fields hold.
\<close>

theorem classifier_no_response:
  "response error = None \<Longrightarrow>
   getUserFriendlyError error = ''Unable to connect. Please check your internet connection.''"
  by (simp add: getUserFriendlyError_def)

theorem classifier_no_response_witness:
  "response \<lparr>response = None, message = ''timeout of 0ms exceeded'', code = Some ''ECONNABORTED''\<rparr> = None
   \<and> getUserFriendlyError
        \<lparr>response = None, message = ''timeout of 0ms exceeded'', code = Some ''ECONNABORTED''\<rparr>
      = ''Unable to connect. Please check your internet connection.''"
  using classifier_no_response
    [of "\<lparr>response = None, message = ''timeout of 0ms exceeded'', code = Some ''ECONNABORTED''\<rparr>"]
  by simp

text \<open>
  C6. A failure whose response has status 401 or 403 is classified as the permission
  message, whatever the server's error string is: the status is tested first.
\<close>

theorem classifier_forbidden:
  "response error = Some r \<Longrightarrow> status r = 401 \<or> status r = 403 \<Longrightarrow>
   getUserFriendlyError error = ''You don't have permission to share this file.''"
  by (auto simp: getUserFriendlyError_def)

theorem classifier_forbidden_witness:
  "response \<lparr>response = Some \<lparr>status = 401, data_error = JString ''not found''\<rparr>,
             message = ''Request failed'', code = None\<rparr>
     = Some \<lparr>status = 401, data_error = JString ''not found''\<rparr>
   \<and> (status \<lparr>status = 401, data_error = JString ''not found''\<rparr> = 401
      \<or> status \<lparr>status = 401, data_error = JString ''not found''\<rparr> = 403)
   \<and> getUserFriendlyError
        \<lparr>response = Some \<lparr>status = 401, data_error = JString ''not found''\<rparr>,
         message = ''Request failed'', code = None\<rparr>
      = ''You don't have permission to share this file.''"
  using classifier_forbidden
    [of "\<lparr>response = Some \<lparr>status = 401, data_error = JString ''not found''\<rparr>,
          message = ''Request failed'', code = None\<rparr>"
        "\<lparr>status = 401, data_error = JString ''not found''\<rparr>"]
  by simp

text \<open>
  C8. A failure whose response has a status other than 401 and 403 and below 500, and whose
  server error is a string in which \<open>timeout\<close> occurs in any letter casing, is classified
  as the timeout message.
\<close>

theorem classifier_timeout:
  assumes "response error = Some r"
    and "status r \<noteq> 401" and "status r \<noteq> 403" and "status r < 500"
    and "data_error r = JString (pre @ mid @ post)"
    and "any_casing_of mid ''timeout''"
  shows "getUserFriendlyError error = ''Request timed out. Please try again.''"
proof -
  have low: "toLowerCase ''timeout'' = ''timeout''"
    by (simp add: str_eval)
  have inc: "includes_str (toLowerCase (pre @ mid @ post)) ''timeout''"
    using assms(6) low by (rule includes_any_casing)
  have "length mid = length ''timeout''"
    using assms(6) by (simp only: any_casing_of_def list_all2_lengthD)
  then have ne: "pre @ mid @ post \<noteq> []" by auto
  show ?thesis
    using assms(1-5) inc ne
    by (simp add: getUserFriendlyError_def truthy_def typeof_string_def string_value_def)
qed

theorem classifier_timeout_witness:
  "response \<lparr>response = Some \<lparr>status = 400, data_error = JString ''Gateway TimeOut (upstream)''\<rparr>,
             message = ''Request failed'', code = None\<rparr>
     = Some \<lparr>status = 400, data_error = JString ''Gateway TimeOut (upstream)''\<rparr>
   \<and> status \<lparr>status = 400, data_error = JString ''Gateway TimeOut (upstream)''\<rparr> \<noteq> 401
   \<and> status \<lparr>status = 400, data_error = JString ''Gateway TimeOut (upstream)''\<rparr> \<noteq> 403
   \<and> status \<lparr>status = 400, data_error = JString ''Gateway TimeOut (upstream)''\<rparr> < 500
   \<and> data_error \<lparr>status = 400, data_error = JString ''Gateway TimeOut (upstream)''\<rparr>
       = JString (''Gateway '' @ ''TimeOut'' @ '' (upstream)'')
   \<and> any_casing_of ''TimeOut'' ''timeout''
   \<and> getUserFriendlyError
        \<lparr>response = Some \<lparr>status = 400, data_error = JString ''Gateway TimeOut (upstream)''\<rparr>,
         message = ''Request failed'', code = None\<rparr>
      = ''Request timed out. Please try again.''"
proof -
  have c: "any_casing_of ''TimeOut'' ''timeout''"
    by (simp add: str_eval)
  show ?thesis
    using c classifier_timeout
      [of "\<lparr>response = Some \<lparr>status = 400, data_error = JString ''Gateway TimeOut (upstream)''\<rparr>,
            message = ''Request failed'', code = None\<rparr>"
          "\<lparr>status = 400, data_error = JString ''Gateway TimeOut (upstream)''\<rparr>"
          "''Gateway ''" "''TimeOut''" "'' (upstream)''"]
    by simp
qed

subsection \<open>The local share list\<close>










subsection \<open>One invocation of the handler\<close>

lemma handleShare_begin_refused:
  "\<not> truthy_str (task_file_id td) \<Longrightarrow>
   handleShare_begin td st =
     (st\<lparr>shareError := Some ''File ID not available. Task may not be completed yet.''\<rparr>, None)"
  by (simp add: handleShare_begin_def)

lemma handleShare_begin_sent:
  "task_file_id td = Some fileId \<Longrightarrow> fileId \<noteq> [] \<Longrightarrow>
   handleShare_begin td st = (st\<lparr>shareLoading := True, shareError := None\<rparr>, Some fileId)"
  by (simp add: handleShare_begin_def truthy_str_def)

lemma saveToLocalStorage_written:
  "saveToLocalStorage td now_id now_ts Written r fileId st =
     Inr (st\<lparr>shares := append_share (newShare td now_id now_ts r fileId) fileId (shares st)\<rparr>)"
  by (simp add: saveToLocalStorage_def setShares_def append_share_def Let_def)

lemma saveToLocalStorage_present:
  "list_ex (\<lambda>s. ls_file_id s = fileId) (shares st) \<Longrightarrow>
   saveToLocalStorage td now_id now_ts write r fileId st = Inr st"
  by (simp add: saveToLocalStorage_def Let_def)

lemma saveToLocalStorage_throws:
  "\<not> list_ex (\<lambda>s. ls_file_id s = fileId) (shares st) \<Longrightarrow>
   saveToLocalStorage td now_id now_ts (WriteThrows thrown left) r fileId st =
     Inl (thrown, st\<lparr>shares := left\<rparr>)"
  by (simp add: saveToLocalStorage_def setShares_def Let_def)

text \<open>
  The \<open>try\<close> block on a resolved request whose store write, if there is one, goes through.
\<close>

lemma handleShare_try_resolved:
  assumes "truthy_bool (is_existing r) \<or> list_ex (\<lambda>s. ls_file_id s = fileId) (shares st)
           \<or> write = Written"
  shows "handleShare_try td now_id now_ts write fileId (Resolved r) st =
     Inr (st\<lparr>shareData := Some r,
             shares := (if \<not> truthy_bool (is_existing r)
                          \<and> \<not> list_ex (\<lambda>s. ls_file_id s = fileId) (shares st)
                        then newShare td now_id now_ts r fileId # shares st
                        else shares st)\<rparr>)"
proof (cases "truthy_bool (is_existing r)")
  case True
  then show ?thesis by (simp add: handleShare_try_def)
next
  case False
  note nex = this
  show ?thesis
  proof (cases "list_ex (\<lambda>s. ls_file_id s = fileId) (shares st)")
    case True
    then show ?thesis
      using nex by (simp add: handleShare_try_def saveToLocalStorage_present)
  next
    case False
    with nex assms have "write = Written" by blast
    then show ?thesis
      using nex False
      by (simp add: handleShare_try_def saveToLocalStorage_written append_share_def)
  qed
qed

lemma handleShare_try_throws:
  assumes "\<not> truthy_bool (is_existing r)"
    and "\<not> list_ex (\<lambda>s. ls_file_id s = fileId) (shares st)"
  shows "handleShare_try td now_id now_ts (WriteThrows thrown left) fileId (Resolved r) st =
     Inl (thrown, st\<lparr>shareData := Some r, shares := left\<rparr>)"
  using assms by (simp add: handleShare_try_def saveToLocalStorage_throws)

lemma handleShare_resolved:
  assumes "task_file_id td = Some fileId" and "fileId \<noteq> []"
    and "truthy_bool (is_existing r) \<or> list_ex (\<lambda>s. ls_file_id s = fileId) (shares st)
         \<or> write = Written"
  shows "handleShare td (Resolved r) write now_id now_ts st =
     (st\<lparr>shareLoading := False, shareError := None, shareData := Some r,
         shares := (if \<not> truthy_bool (is_existing r)
                      \<and> \<not> list_ex (\<lambda>s. ls_file_id s = fileId) (shares st)
                    then newShare td now_id now_ts r fileId # shares st
                    else shares st)\<rparr>,
      [fileId])"
    and "handleShare_exit td (Resolved r) write now_id now_ts st = Completed"
proof -
  have t: "handleShare_try td now_id now_ts write fileId (Resolved r)
             (st\<lparr>shareLoading := True, shareError := None\<rparr>) =
     Inr (st\<lparr>shareLoading := True, shareError := None, shareData := Some r,
             shares := (if \<not> truthy_bool (is_existing r)
                          \<and> \<not> list_ex (\<lambda>s. ls_file_id s = fileId) (shares st)
                        then newShare td now_id now_ts r fileId # shares st
                        else shares st)\<rparr>)"
    using assms(3) handleShare_try_resolved
      [of r fileId "st\<lparr>shareLoading := True, shareError := None\<rparr>" "write" td now_id now_ts]
    by simp
  show "handleShare td (Resolved r) write now_id now_ts st =
     (st\<lparr>shareLoading := False, shareError := None, shareData := Some r,
         shares := (if \<not> truthy_bool (is_existing r)
                      \<and> \<not> list_ex (\<lambda>s. ls_file_id s = fileId) (shares st)
                    then newShare td now_id now_ts r fileId # shares st
                    else shares st)\<rparr>,
      [fileId])"
    using assms(1,2) by (simp add: handleShare_def handleShare_begin_sent handleShare_settle_def t)
  show "handleShare_exit td (Resolved r) write now_id now_ts st = Completed"
    using assms(1,2) by (simp add: handleShare_exit_def handleShare_begin_sent t)
qed

text \<open>
  A resolved request whose store write throws: the result is already in \<open>shareData\<close>, and
  the \<open>catch\<close> classifies the object thrown as it does a failed request.
\<close>

lemma handleShare_resolved_throws:
  assumes "task_file_id td = Some fileId" and "fileId \<noteq> []"
    and "\<not> truthy_bool (is_existing r)"
    and "\<not> list_ex (\<lambda>s. ls_file_id s = fileId) (shares st)"
  shows "handleShare td (Resolved r) (WriteThrows thrown left) now_id now_ts st =
     (st\<lparr>shareLoading := False, shareError := Some (getUserFriendlyError thrown),
         shareData := Some r, shares := left\<rparr>,
      [fileId])"
    and "handleShare_exit td (Resolved r) (WriteThrows thrown left) now_id now_ts st = Caught"
proof -
  have t: "handleShare_try td now_id now_ts (WriteThrows thrown left) fileId (Resolved r)
             (st\<lparr>shareLoading := True, shareError := None\<rparr>) =
     Inl (thrown, st\<lparr>shareLoading := True, shareError := None, shareData := Some r,
                     shares := left\<rparr>)"
    using assms(3,4) handleShare_try_throws
      [of r fileId "st\<lparr>shareLoading := True, shareError := None\<rparr>" td now_id now_ts thrown left]
    by simp
  show "handleShare td (Resolved r) (WriteThrows thrown left) now_id now_ts st =
     (st\<lparr>shareLoading := False, shareError := Some (getUserFriendlyError thrown),
         shareData := Some r, shares := left\<rparr>,
      [fileId])"
    using assms(1,2) by (simp add: handleShare_def handleShare_begin_sent handleShare_settle_def t)
  show "handleShare_exit td (Resolved r) (WriteThrows thrown left) now_id now_ts st = Caught"
    using assms(1,2) by (simp add: handleShare_exit_def handleShare_begin_sent t)
qed

lemma handleShare_rejected:
  assumes "task_file_id td = Some fileId" and "fileId \<noteq> []"
  shows "handleShare td (Rejected error) write now_id now_ts st =
     (st\<lparr>shareLoading := False, shareError := Some (getUserFriendlyError error)\<rparr>, [fileId])"
    and "handleShare_exit td (Rejected error) write now_id now_ts st = Caught"
  using assms
  by (simp_all add: handleShare_def handleShare_exit_def handleShare_begin_sent
      handleShare_settle_def handleShare_try_def)

lemma handleShare_refused:
  assumes "\<not> truthy_str (task_file_id td)"
  shows "handleShare td out write now_id now_ts st =
     (st\<lparr>shareError := Some ''File ID not available. Task may not be completed yet.''\<rparr>, [])"
    and "handleShare_exit td out write now_id now_ts st = Refused"
  using assms
  by (simp_all add: handleShare_def handleShare_exit_def handleShare_begin_refused)

lemma handleShare_resolved_shareData:
  assumes "task_file_id td = Some fileId" and "fileId \<noteq> []"
  shows "shareData (fst (handleShare td (Resolved r) write now_id now_ts st)) = Some r"
proof (cases "truthy_bool (is_existing r) \<or> list_ex (\<lambda>s. ls_file_id s = fileId) (shares st)
              \<or> write = Written")
  case True
  then show ?thesis by (simp add: handleShare_resolved(1) [OF assms])
next
  case False
  then obtain thrown left where "write = WriteThrows thrown left"
    by (cases "write") auto
  with False show ?thesis
    by (simp add: handleShare_resolved_throws(1) [OF assms])
qed

lemma truthy_strE:
  assumes "truthy_str v"
  obtains s where "v = Some s" and "s \<noteq> []"
  using assms by (auto simp: truthy_str_def split: option.splits)

lemma handleShare_resolved_throws_connection:
  assumes "task_file_id td = Some fileId" and "fileId \<noteq> []"
    and "\<not> truthy_bool (is_existing r)"
    and "\<not> list_ex (\<lambda>s. ls_file_id s = fileId) (shares st)"
    and "response thrown = None"
  shows "shareError (fst (handleShare td (Resolved r) (WriteThrows thrown left) now_id now_ts st))
           = Some ''Unable to connect. Please check your internet connection.''
       \<and> status_after
            (handleShare_exit td (Resolved r) (WriteThrows thrown left) now_id now_ts st) s = Failed"
  using assms
  by (simp add: handleShare_resolved_throws getUserFriendlyError_def status_after_def)

text \<open>
  C3. When \<open>taskData?.file_id\<close> is absent or empty, the handler sends no request, leaves
  \<open>shareLoading\<close> and every other cell as they were, and sets the error to the
  file-id message; this is decided before the request would be sent.
\<close>

theorem handleShare_without_file_id:
  assumes "\<not> truthy_str (task_file_id td)"
  shows "handleShare_begin td st =
           (st\<lparr>shareError := Some ''File ID not available. Task may not be completed yet.''\<rparr>, None)
       \<and> handleShare td out write now_id now_ts st =
           (st\<lparr>shareError := Some ''File ID not available. Task may not be completed yet.''\<rparr>, [])
       \<and> shareLoading (fst (handleShare td out write now_id now_ts st)) = shareLoading st
       \<and> shareData (fst (handleShare td out write now_id now_ts st)) = shareData st
       \<and> shares (fst (handleShare td out write now_id now_ts st)) = shares st
       \<and> status_after (handleShare_exit td out write now_id now_ts st) s = s"
  using assms
  by (simp add: handleShare_begin_refused handleShare_refused status_after_def)

theorem handleShare_without_file_id_witness:
  "\<not> truthy_str (task_file_id (Some \<lparr>file_id = None, file_name = Some ''a.mkv'', progress = Some 40\<rparr>))
   \<and> handleShare (Some \<lparr>file_id = None, file_name = Some ''a.mkv'', progress = Some 40\<rparr>)
        (Resolved \<lparr>share_url = ''https://x/y'', pass_code = None, is_existing = None, share_id = None\<rparr>)
        Written 5 6 (initial_state [])
      = (\<lparr>shareLoading = False, shareData = None,
          shareError = Some ''File ID not available. Task may not be completed yet.'',
          shares = []\<rparr>, [])
   \<and> status_after
        (handleShare_exit (Some \<lparr>file_id = None, file_name = Some ''a.mkv'', progress = Some 40\<rparr>)
           (Resolved \<lparr>share_url = ''https://x/y'', pass_code = None, is_existing = None,
                       share_id = None\<rparr>)
           Written 5 6 (initial_state [])) Idle = Idle"
  using handleShare_without_file_id
    [of "Some \<lparr>file_id = None, file_name = Some ''a.mkv'', progress = Some 40\<rparr>"
        "initial_state []"
        "Resolved \<lparr>share_url = ''https://x/y'', pass_code = None, is_existing = None, share_id = None\<rparr>"
        Written 5 6 Idle]
  by (simp add: task_file_id_def truthy_str_def initial_state_def)

text \<open>
  C2. When the file id is there and the request fails, the handler leaves through the
  \<open>catch\<close>, so the status becomes \<open>Failed\<close>; it ends with \<open>shareLoading\<close> cleared, the error
  set to the classifier's message for that failure, and the stored list as it was; one
  request was sent.
\<close>

theorem handleShare_failure:
  assumes "task_file_id td = Some fileId" and "fileId \<noteq> []"
  shows "snd (handleShare td (Rejected error) write now_id now_ts st) = [fileId]
       \<and> status_after (handleShare_exit td (Rejected error) write now_id now_ts st) s = Failed
       \<and> shareLoading (fst (handleShare td (Rejected error) write now_id now_ts st)) = False
       \<and> shareError (fst (handleShare td (Rejected error) write now_id now_ts st))
           = Some (getUserFriendlyError error)
       \<and> shares (fst (handleShare td (Rejected error) write now_id now_ts st)) = shares st"
  using assms by (simp add: handleShare_rejected status_after_def)

theorem handleShare_failure_witness:
  "task_file_id (Some \<lparr>file_id = Some ''f1'', file_name = Some ''a.mkv'', progress = None\<rparr>) = Some ''f1''
   \<and> ''f1'' \<noteq> []
   \<and> handleShare (Some \<lparr>file_id = Some ''f1'', file_name = Some ''a.mkv'', progress = None\<rparr>)
        (Rejected \<lparr>response = Some \<lparr>status = 500, data_error = JString ''internal failure''\<rparr>,
                    message = ''Request failed'', code = None\<rparr>)
        Written 5 6 (initial_state [])
      = (\<lparr>shareLoading = False, shareData = None,
          shareError = Some ''Server is temporarily unavailable. Please try again later.'',
          shares = []\<rparr>, [''f1''])
   \<and> status_after
        (handleShare_exit (Some \<lparr>file_id = Some ''f1'', file_name = Some ''a.mkv'', progress = None\<rparr>)
           (Rejected \<lparr>response = Some \<lparr>status = 500, data_error = JString ''internal failure''\<rparr>,
                       message = ''Request failed'', code = None\<rparr>)
           Written 5 6 (initial_state [])) Idle = Failed"
proof -
  let ?td = "Some \<lparr>file_id = Some ''f1'', file_name = Some ''a.mkv'', progress = None\<rparr>"
  let ?e = "\<lparr>response = Some \<lparr>status = 500, data_error = JString ''internal failure''\<rparr>,
             message = ''Request failed'', code = None\<rparr>"
  let ?h = "handleShare ?td (Rejected ?e) Written 5 6 (initial_state [])"
  have id: "task_file_id ?td = Some ''f1''"
    by (simp add: task_file_id_def)
  have m: "getUserFriendlyError ?e = ''Server is temporarily unavailable. Please try again later.''"
    by (simp add: getUserFriendlyError_def)
  note f = handleShare_failure [of ?td "''f1''" ?e Written 5 6 "initial_state []" Idle]
  have a: "snd ?h = [''f1'']" and b: "shareLoading (fst ?h) = False"
    and c: "shareError (fst ?h) = Some ''Server is temporarily unavailable. Please try again later.''"
    and d: "shares (fst ?h) = []"
    and s: "status_after (handleShare_exit ?td (Rejected ?e) Written 5 6 (initial_state [])) Idle = Failed"
    using f id m by (simp_all add: initial_state_def)
  have e: "shareData (fst ?h) = None"
    using id by (simp add: handleShare_rejected initial_state_def)
  have "?h = (\<lparr>shareLoading = False, shareData = None,
          shareError = Some ''Server is temporarily unavailable. Please try again later.'',
          shares = []\<rparr>, [''f1''])"
    using a b c d e by (simp add: prod_eq_iff share_state.equality)
  then show ?thesis using id s by simp
qed

text \<open>
  C9. \<open>handleRetry\<close> and \<open>handleShare\<close>, run in the same state with the same props, the same
  answer of the backend, the same behaviour of the storage and the same clock, send the
  same requests and end in the same state, before the request settles and after.
\<close>

theorem handleRetry_same_as_handleShare:
  "handleRetry_begin td st = handleShare_begin td st
   \<and> handleRetry td out write now_id now_ts st = handleShare td out write now_id now_ts st"
proof -
  have b: "handleShare_begin td (st\<lparr>shareError := None\<rparr>) = handleShare_begin td st"
    by (simp add: handleShare_begin_def)
  then show ?thesis
    by (simp add: handleRetry_begin_def handleRetry_def handleShare_def)
qed

text \<open>
  C10. A failed request leaves \<open>shareData\<close> as it was. After a successful invocation with
  result \<open>r\<close>, a later invocation whose request fails ends with \<open>shareData\<close> still \<open>r\<close>, next to
  the new error.
\<close>

theorem failure_keeps_shareData:
  assumes "task_file_id td1 = Some f1" and "f1 \<noteq> []"
    and "task_file_id td2 = Some f2" and "f2 \<noteq> []"
  shows "shareData (fst (handleShare td2 (Rejected error) w2 n3 n4 st)) = shareData st
       \<and> shareData (fst (handleShare td2 (Rejected error) w2 n3 n4
                           (fst (handleShare td1 (Resolved r) w1 n1 n2 st)))) = Some r
       \<and> shareError (fst (handleShare td2 (Rejected error) w2 n3 n4
                           (fst (handleShare td1 (Resolved r) w1 n1 n2 st))))
           = Some (getUserFriendlyError error)"
  using assms by (simp add: handleShare_rejected handleShare_resolved_shareData)

theorem failure_keeps_shareData_witness:
  "task_file_id (Some \<lparr>file_id = Some ''f1'', file_name = None, progress = None\<rparr>) = Some ''f1''
   \<and> ''f1'' \<noteq> []
   \<and> shareData (fst (handleShare (Some \<lparr>file_id = Some ''f1'', file_name = None, progress = None\<rparr>)
        (Rejected \<lparr>response = None, message = ''Network Error'', code = None\<rparr>) Written 7 8
        (fst (handleShare (Some \<lparr>file_id = Some ''f1'', file_name = None, progress = None\<rparr>)
           (Resolved \<lparr>share_url = ''https://x/y'', pass_code = Some ''pw'', is_existing = Some False,
                       share_id = None\<rparr>) Written 5 6 (initial_state [])))))
      = Some \<lparr>share_url = ''https://x/y'', pass_code = Some ''pw'', is_existing = Some False,
               share_id = None\<rparr>
   \<and> shareError (fst (handleShare (Some \<lparr>file_id = Some ''f1'', file_name = None, progress = None\<rparr>)
        (Rejected \<lparr>response = None, message = ''Network Error'', code = None\<rparr>) Written 7 8
        (fst (handleShare (Some \<lparr>file_id = Some ''f1'', file_name = None, progress = None\<rparr>)
           (Resolved \<lparr>share_url = ''https://x/y'', pass_code = Some ''pw'', is_existing = Some False,
                       share_id = None\<rparr>) Written 5 6 (initial_state [])))))
      = Some ''Unable to connect. Please check your internet connection.''"
  using failure_keeps_shareData
    [of "Some \<lparr>file_id = Some ''f1'', file_name = None, progress = None\<rparr>" "''f1''"
        "Some \<lparr>file_id = Some ''f1'', file_name = None, progress = None\<rparr>" "''f1''"
        "\<lparr>response = None, message = ''Network Error'', code = None\<rparr>" Written 7 8
        "initial_state []"
        "\<lparr>share_url = ''https://x/y'', pass_code = Some ''pw'', is_existing = Some False,
          share_id = None\<rparr>" Written 5 6]
  by (simp add: task_file_id_def getUserFriendlyError_def)

text \<open>
  C1, as the handler has it. When the file id is there, the request succeeds with result
  \<open>r\<close>, and the write of the stored list, if one is made, does not throw: one request was
  sent, the handler leaves by the end of the \<open>try\<close> block, so the status becomes
  \<open>Succeeded\<close>, with \<open>shareLoading\<close> and the error cleared and \<open>shareData\<close> set to \<open>r\<close>. The
  stored list gains a record at its head, with the share URL of \<open>r\<close> and the file id of the
  request, exactly when \<open>r.is_existing\<close> is falsy and no stored record has that file id;
  otherwise the stored list is as it was.
\<close>

theorem handleShare_success:
  assumes "task_file_id td = Some fileId" and "fileId \<noteq> []"
    and "truthy_bool (is_existing r) \<or> list_ex (\<lambda>s. ls_file_id s = fileId) (shares st)
         \<or> write = Written"
  shows "snd (handleShare td (Resolved r) write now_id now_ts st) = [fileId]
       \<and> status_after (handleShare_exit td (Resolved r) write now_id now_ts st) s = Succeeded
       \<and> shareLoading (fst (handleShare td (Resolved r) write now_id now_ts st)) = False
       \<and> shareError (fst (handleShare td (Resolved r) write now_id now_ts st)) = None
       \<and> shareData (fst (handleShare td (Resolved r) write now_id now_ts st)) = Some r
       \<and> shares (fst (handleShare td (Resolved r) write now_id now_ts st))
           = (if \<not> truthy_bool (is_existing r) \<and> \<not> list_ex (\<lambda>s. ls_file_id s = fileId) (shares st)
              then newShare td now_id now_ts r fileId # shares st
              else shares st)
       \<and> ls_share_url (newShare td now_id now_ts r fileId) = share_url r
       \<and> ls_file_id (newShare td now_id now_ts r fileId) = fileId"
proof -
  note h = handleShare_resolved [OF assms, of now_id now_ts]
  have n: "ls_share_url (newShare td now_id now_ts r fileId) = share_url r
         \<and> ls_file_id (newShare td now_id now_ts r fileId) = fileId"
    by (simp add: newShare_def)
  show ?thesis
    unfolding h using n by (simp add: status_after_def)
qed

theorem handleShare_success_witness:
  "task_file_id (Some \<lparr>file_id = Some ''f1'', file_name = Some ''a.mkv'', progress = None\<rparr>) = Some ''f1''
   \<and> ''f1'' \<noteq> []
   \<and> handleShare (Some \<lparr>file_id = Some ''f1'', file_name = Some ''a.mkv'', progress = None\<rparr>)
        (Resolved \<lparr>share_url = ''https://x/y'', pass_code = None, is_existing = Some False,
                    share_id = None\<rparr>)
        Written 5 6 (initial_state [])
      = (\<lparr>shareLoading = False,
          shareData = Some \<lparr>share_url = ''https://x/y'', pass_code = None, is_existing = Some False,
                            share_id = None\<rparr>,
          shareError = None,
          shares = [\<lparr>ls_id = ''share-5'', ls_file_name = ''a.mkv'', ls_share_url = ''https://x/y'',
                     ls_pass_code = None, ls_timestamp = 6, ls_file_id = ''f1''\<rparr>]\<rparr>, [''f1''])
   \<and> status_after
        (handleShare_exit (Some \<lparr>file_id = Some ''f1'', file_name = Some ''a.mkv'', progress = None\<rparr>)
           (Resolved \<lparr>share_url = ''https://x/y'', pass_code = None, is_existing = Some False,
                       share_id = None\<rparr>)
           Written 5 6 (initial_state [])) Idle = Succeeded"
proof -
  let ?td = "Some \<lparr>file_id = Some ''f1'', file_name = Some ''a.mkv'', progress = None\<rparr>"
  let ?r = "\<lparr>share_url = ''https://x/y'', pass_code = None, is_existing = Some False,
             share_id = None\<rparr>"
  let ?h = "handleShare ?td (Resolved ?r) Written 5 6 (initial_state [])"
  have id: "task_file_id ?td = Some ''f1''"
    by (simp add: task_file_id_def)
  have n: "newShare ?td 5 6 ?r ''f1''
      = \<lparr>ls_id = ''share-5'', ls_file_name = ''a.mkv'', ls_share_url = ''https://x/y'',
         ls_pass_code = None, ls_timestamp = 6, ls_file_id = ''f1''\<rparr>"
    by (simp add: newShare_def or_else_def task_file_name_def string_of_nat.simps digit_char_def)
  note f = handleShare_success [of ?td "''f1''" ?r "initial_state []" Written 5 6 Idle]
  have a: "snd ?h = [''f1'']" and b: "shareLoading (fst ?h) = False"
    and c: "shareError (fst ?h) = None" and d: "shareData (fst ?h) = Some ?r"
    and e: "shares (fst ?h) = [newShare ?td 5 6 ?r ''f1'']"
    and s: "status_after (handleShare_exit ?td (Resolved ?r) Written 5 6 (initial_state [])) Idle
              = Succeeded"
    using f id by (simp_all add: truthy_bool_def initial_state_def)
  have "?h = (\<lparr>shareLoading = False, shareData = Some ?r, shareError = None,
          shares = [newShare ?td 5 6 ?r ''f1'']\<rparr>, [''f1''])"
    using a b c d e by (simp add: prod_eq_iff share_state.equality)
  then show ?thesis using id s n by simp
qed

text \<open>
  The claim C1 as it is worded fails on a list that already holds a record for the file:
  the request of file \<open>f1\<close> succeeds with \<open>is_existing = false\<close>, the status becomes
  \<open>Succeeded\<close>, and the stored list is left as it was.
\<close>

theorem handleShare_success_counterexample:
  "\<not> truthy_bool (is_existing \<lparr>share_url = ''https://x/2'', pass_code = None,
                                  is_existing = Some False, share_id = Some ''s2''\<rparr>)
   \<and> status_after (handleShare_exit
        (Some \<lparr>file_id = Some ''f1'', file_name = Some ''a.mkv'', progress = None\<rparr>)
        (Resolved \<lparr>share_url = ''https://x/2'', pass_code = None, is_existing = Some False,
                    share_id = Some ''s2''\<rparr>)
        Written 5 6
        (initial_state [\<lparr>ls_id = ''s1'', ls_file_name = ''a.mkv'', ls_share_url = ''https://x/1'',
                          ls_pass_code = None, ls_timestamp = 1, ls_file_id = ''f1''\<rparr>])) Idle
      = Succeeded
   \<and> shares (fst (handleShare
        (Some \<lparr>file_id = Some ''f1'', file_name = Some ''a.mkv'', progress = None\<rparr>)
        (Resolved \<lparr>share_url = ''https://x/2'', pass_code = None, is_existing = Some False,
                    share_id = Some ''s2''\<rparr>)
        Written 5 6
        (initial_state [\<lparr>ls_id = ''s1'', ls_file_name = ''a.mkv'', ls_share_url = ''https://x/1'',
                          ls_pass_code = None, ls_timestamp = 1, ls_file_id = ''f1''\<rparr>])))
      = [\<lparr>ls_id = ''s1'', ls_file_name = ''a.mkv'', ls_share_url = ''https://x/1'',
          ls_pass_code = None, ls_timestamp = 1, ls_file_id = ''f1''\<rparr>]"
  by (simp add: handleShare_def handleShare_exit_def handleShare_begin_def handleShare_settle_def
      handleShare_try_def saveToLocalStorage_def setShares_def task_file_id_def truthy_str_def
      truthy_bool_def initial_state_def status_after_def Let_def)

subsection \<open>Runs of the workflow\<close>

lemma write_ok_Written: "write_ok i \<Longrightarrow> inv_write i = Written"
  by (cases "inv_write i") (simp_all add: write_ok_def)

lemma invoke_refused:
  assumes "\<not> sent i"
  shows "invoke i st =
           st\<lparr>shareError := Some ''File ID not available. Task may not be completed yet.''\<rparr>"
    and "invoke_exit i st = Refused"
  using assms
  by (cases "inv_action i";
      simp add: sent_def invoke_def invoke_exit_def handleRetry_def handleShare_refused)+

lemma invoke_resolved:
  assumes "task_file_id (inv_task i) = Some fileId" and "fileId \<noteq> []"
    and "inv_outcome i = Resolved r" and "inv_write i = Written"
  shows "shareLoading (invoke i st) = False \<and> shareError (invoke i st) = None
       \<and> shareData (invoke i st) = Some r"
    and "invoke_exit i st = Completed"
  using assms
  by (cases "inv_action i";
      simp add: invoke_def invoke_exit_def handleRetry_def handleShare_resolved)+

lemma invoke_rejected:
  assumes "task_file_id (inv_task i) = Some fileId" and "fileId \<noteq> []"
    and "inv_outcome i = Rejected e"
  shows "shareLoading (invoke i st) = False
       \<and> shareError (invoke i st) = Some (getUserFriendlyError e)
       \<and> shareData (invoke i st) = shareData st"
    and "invoke_exit i st = Caught"
  using assms
  by (cases "inv_action i";
      simp add: invoke_def invoke_exit_def handleRetry_def handleShare_rejected)+

lemma succeeds_sent: "succeeds i \<Longrightarrow> sent i"
  by (simp add: succeeds_def sent_def)

lemma invoke_step:
  assumes "write_ok i"
  shows "(shareLoading (invoke i st) \<longrightarrow> shareLoading st)
   \<and> (shareError (invoke i st) \<noteq> None \<longleftrightarrow> \<not> succeeds i)
   \<and> (shareData (invoke i st) \<noteq> None \<longleftrightarrow> shareData st \<noteq> None \<or> succeeds i)
   \<and> invoke_exit i st = (if \<not> sent i then Refused else if succeeds i then Completed else Caught)"
proof (cases "sent i")
  case False
  then have "\<not> succeeds i" using succeeds_sent by blast
  with False show ?thesis by (simp add: invoke_refused)
next
  case True
  then obtain fileId where f: "task_file_id (inv_task i) = Some fileId" "fileId \<noteq> []"
    unfolding sent_def by (rule truthy_strE)
  show ?thesis
  proof (cases "inv_outcome i")
    case (Resolved r)
    then have "succeeds i" using True by (simp add: succeeds_def sent_def)
    then show ?thesis
      using True invoke_resolved [OF f Resolved write_ok_Written [OF assms], of st] by simp
  next
    case (Rejected e)
    then have "\<not> succeeds i" by (simp add: succeeds_def)
    then show ?thesis
      using True invoke_rejected [OF f Rejected, of st] by simp
  qed
qed

lemma run_snoc: "run (invs @ [i]) st = invoke i (run invs st)"
  by (simp add: run_def)

lemma run_Nil: "run [] st = st"
  by (simp add: run_def)

lemma run_Cons: "run (i # invs) st = run invs (invoke i st)"
  by (simp add: run_def)

lemma run_status_snoc:
  "run_status (invs @ [i]) st s = status_after (invoke_exit i (run invs st)) (run_status invs st s)"
  by (induction invs arbitrary: st s) (simp_all add: run_Nil run_Cons)

lemma run_cells:
  assumes "list_all write_ok invs"
  shows "\<not> shareLoading (run invs (initial_state stored))
   \<and> (shareError (run invs (initial_state stored)) \<noteq> None \<longleftrightarrow> invs \<noteq> [] \<and> \<not> succeeds (last invs))
   \<and> (shareData (run invs (initial_state stored)) \<noteq> None \<longleftrightarrow> list_ex succeeds invs)"
  using assms
proof (induction invs rule: rev_induct)
  case Nil
  show ?case by (simp add: run_Nil initial_state_def)
next
  case (snoc i invs)
  then have w: "write_ok i" and ih: "\<not> shareLoading (run invs (initial_state stored))"
    "shareData (run invs (initial_state stored)) \<noteq> None \<longleftrightarrow> list_ex succeeds invs"
    by simp_all
  show ?case
    using invoke_step [OF w, of "run invs (initial_state stored)"] ih
    by (auto simp: run_snoc)
qed

text \<open>
  The status after a run in which no store write throws is decided by the latest invocation
  that got past the guard.
\<close>

lemma run_status_latest_sent:
  assumes "list_all write_ok invs"
  shows "run_status invs (initial_state stored) Idle =
     (if filter sent invs = [] then Idle
      else if succeeds (last (filter sent invs)) then Succeeded else Failed)"
  using assms
proof (induction invs rule: rev_induct)
  case Nil
  show ?case by simp
next
  case (snoc i invs)
  then have w: "write_ok i"
    and ih: "run_status invs (initial_state stored) Idle =
     (if filter sent invs = [] then Idle
      else if succeeds (last (filter sent invs)) then Succeeded else Failed)"
    by simp_all
  have e: "invoke_exit i (run invs (initial_state stored))
      = (if \<not> sent i then Refused else if succeeds i then Completed else Caught)"
    using invoke_step [OF w, of "run invs (initial_state stored)"] by blast
  show ?case
  proof (cases "sent i")
    case True
    then show ?thesis by (simp add: run_status_snoc e status_after_def)
  next
    case False
    then show ?thesis by (simp add: run_status_snoc e status_after_def ih)
  qed
qed

lemma last_filter_in:
  assumes "filter P xs \<noteq> []"
  shows "last (filter P xs) \<in> set xs \<and> P (last (filter P xs))"
proof -
  have "last (filter P xs) \<in> set (filter P xs)"
    using assms by (rule last_in_set)
  then show ?thesis by simp
qed

text \<open>
  C4, as the component has it. In every state reached from the initial state by a sequence
  of completed invocations of \<open>handleShare\<close> and \<open>handleRetry\<close> in which no store write
  throws: no request is outstanding; the result is present exactly when some invocation of
  the sequence succeeded, so it is present whenever the status is \<open>Succeeded\<close> and it stays
  present after a later failure; the error is present exactly when the latest invocation
  did not succeed (its request failed, or it was refused for want of a file id), so it is
  present whenever the status is \<open>Failed\<close>, and also after a refused invocation, which
  leaves the status as it was.
\<close>

theorem run_status_cells:
  assumes "list_all write_ok invs"
  shows "\<not> shareLoading (run invs (initial_state stored))
   \<and> (shareData (run invs (initial_state stored)) \<noteq> None \<longleftrightarrow> list_ex succeeds invs)
   \<and> (shareError (run invs (initial_state stored)) \<noteq> None
        \<longleftrightarrow> invs \<noteq> [] \<and> \<not> succeeds (last invs))
   \<and> (run_status invs (initial_state stored) Idle = Succeeded
        \<longrightarrow> shareData (run invs (initial_state stored)) \<noteq> None)
   \<and> (run_status invs (initial_state stored) Idle = Failed
        \<longrightarrow> shareError (run invs (initial_state stored)) \<noteq> None)
   \<and> run_status invs (initial_state stored) Idle =
        (if filter sent invs = [] then Idle
         else if succeeds (last (filter sent invs)) then Succeeded else Failed)"
proof -
  let ?st = "run invs (initial_state stored)"
  let ?s = "run_status invs (initial_state stored) Idle"
  have c: "\<not> shareLoading ?st"
    "shareError ?st \<noteq> None \<longleftrightarrow> invs \<noteq> [] \<and> \<not> succeeds (last invs)"
    "shareData ?st \<noteq> None \<longleftrightarrow> list_ex succeeds invs"
    using run_cells [OF assms, of stored] by blast+
  note s = run_status_latest_sent [OF assms, of stored]
  have d: "shareData ?st \<noteq> None" if "?s = Succeeded"
  proof -
    from that s have ne: "filter sent invs \<noteq> []" and ok: "succeeds (last (filter sent invs))"
      by (auto split: if_splits)
    from ne have "last (filter sent invs) \<in> set invs" using last_filter_in by blast
    with ok have "list_ex succeeds invs" by (auto simp: list_ex_iff)
    then show ?thesis using c(3) by blast
  qed
  have e: "shareError ?st \<noteq> None" if "?s = Failed"
  proof -
    from that s have ne: "filter sent invs \<noteq> []" and bad: "\<not> succeeds (last (filter sent invs))"
      by (auto split: if_splits)
    from ne have nn: "invs \<noteq> []" by auto
    have "\<not> succeeds (last invs)"
    proof (cases "sent (last invs)")
      case True
      have "invs = butlast invs @ [last invs]" using nn by simp
      then have "filter sent invs = filter sent (butlast invs) @ [last invs]"
        using True by (metis filter.simps(1) filter.simps(2) filter_append)
      then have "last (filter sent invs) = last invs" by simp
      with bad show ?thesis by simp
    next
      case False
      then show ?thesis using succeeds_sent by blast
    qed
    with nn show ?thesis using c(2) by blast
  qed
  show ?thesis
  proof (intro conjI impI)
    show "\<not> shareLoading ?st" by (rule c(1))
    show "shareData ?st \<noteq> None \<longleftrightarrow> list_ex succeeds invs" by (rule c(3))
    show "shareError ?st \<noteq> None \<longleftrightarrow> invs \<noteq> [] \<and> \<not> succeeds (last invs)" by (rule c(2))
    show "shareData ?st \<noteq> None" if "?s = Succeeded" using that by (rule d)
    show "shareError ?st \<noteq> None" if "?s = Failed" using that by (rule e)
    show "?s = (if filter sent invs = [] then Idle
         else if succeeds (last (filter sent invs)) then Succeeded else Failed)" by (rule s)
  qed
qed

lemma run_success_then_failure:
  "shareData (run
       [\<lparr>inv_action = Share,
         inv_task = Some \<lparr>file_id = Some ''f1'', file_name = Some ''a.mkv'', progress = None\<rparr>,
         inv_outcome = Resolved \<lparr>share_url = ''https://x/y'', pass_code = None,
                                  is_existing = Some False, share_id = None\<rparr>,
         inv_write = Written, inv_now_id = 5, inv_now_ts = 6\<rparr>,
        \<lparr>inv_action = Share,
         inv_task = Some \<lparr>file_id = Some ''f1'', file_name = Some ''a.mkv'', progress = None\<rparr>,
         inv_outcome = Rejected \<lparr>response = None, message = ''Network Error'', code = None\<rparr>,
         inv_write = Written, inv_now_id = 7, inv_now_ts = 8\<rparr>]
       (initial_state []))
      = Some \<lparr>share_url = ''https://x/y'', pass_code = None, is_existing = Some False,
               share_id = None\<rparr>
   \<and> shareError (run
       [\<lparr>inv_action = Share,
         inv_task = Some \<lparr>file_id = Some ''f1'', file_name = Some ''a.mkv'', progress = None\<rparr>,
         inv_outcome = Resolved \<lparr>share_url = ''https://x/y'', pass_code = None,
                                  is_existing = Some False, share_id = None\<rparr>,
         inv_write = Written, inv_now_id = 5, inv_now_ts = 6\<rparr>,
        \<lparr>inv_action = Share,
         inv_task = Some \<lparr>file_id = Some ''f1'', file_name = Some ''a.mkv'', progress = None\<rparr>,
         inv_outcome = Rejected \<lparr>response = None, message = ''Network Error'', code = None\<rparr>,
         inv_write = Written, inv_now_id = 7, inv_now_ts = 8\<rparr>]
       (initial_state []))
      = Some ''Unable to connect. Please check your internet connection.''
   \<and> run_status
       [\<lparr>inv_action = Share,
         inv_task = Some \<lparr>file_id = Some ''f1'', file_name = Some ''a.mkv'', progress = None\<rparr>,
         inv_outcome = Resolved \<lparr>share_url = ''https://x/y'', pass_code = None,
                                  is_existing = Some False, share_id = None\<rparr>,
         inv_write = Written, inv_now_id = 5, inv_now_ts = 6\<rparr>,
        \<lparr>inv_action = Share,
         inv_task = Some \<lparr>file_id = Some ''f1'', file_name = Some ''a.mkv'', progress = None\<rparr>,
         inv_outcome = Rejected \<lparr>response = None, message = ''Network Error'', code = None\<rparr>,
         inv_write = Written, inv_now_id = 7, inv_now_ts = 8\<rparr>]
       (initial_state []) Idle = Failed"
  by (simp add: run_def invoke_def invoke_exit_def handleShare_resolved handleShare_rejected
      task_file_id_def getUserFriendlyError_def status_after_def)

lemma run_refused:
  "shareError (run
       [\<lparr>inv_action = Share,
         inv_task = Some \<lparr>file_id = None, file_name = Some ''a.mkv'', progress = Some 40\<rparr>,
         inv_outcome = Rejected \<lparr>response = None, message = ''Network Error'', code = None\<rparr>,
         inv_write = Written, inv_now_id = 5, inv_now_ts = 6\<rparr>]
       (initial_state []))
      = Some ''File ID not available. Task may not be completed yet.''
   \<and> run_status
       [\<lparr>inv_action = Share,
         inv_task = Some \<lparr>file_id = None, file_name = Some ''a.mkv'', progress = Some 40\<rparr>,
         inv_outcome = Rejected \<lparr>response = None, message = ''Network Error'', code = None\<rparr>,
         inv_write = Written, inv_now_id = 5, inv_now_ts = 6\<rparr>]
       (initial_state []) Idle = Idle"
  by (simp add: run_def invoke_def invoke_exit_def handleShare_refused task_file_id_def
      truthy_str_def status_after_def)

text \<open>
  The claim C4 as it is worded fails in both halves. After a success followed by a
  failure, the result of the first invocation is still present while the status is
  \<open>Failed\<close>. After a refused invocation, the error is present while the status is still
  \<open>Idle\<close>.
\<close>

theorem run_status_cells_counterexample:
  "\<not> (shareData (run
       [\<lparr>inv_action = Share,
         inv_task = Some \<lparr>file_id = Some ''f1'', file_name = Some ''a.mkv'', progress = None\<rparr>,
         inv_outcome = Resolved \<lparr>share_url = ''https://x/y'', pass_code = None,
                                  is_existing = Some False, share_id = None\<rparr>,
         inv_write = Written, inv_now_id = 5, inv_now_ts = 6\<rparr>,
        \<lparr>inv_action = Share,
         inv_task = Some \<lparr>file_id = Some ''f1'', file_name = Some ''a.mkv'', progress = None\<rparr>,
         inv_outcome = Rejected \<lparr>response = None, message = ''Network Error'', code = None\<rparr>,
         inv_write = Written, inv_now_id = 7, inv_now_ts = 8\<rparr>]
       (initial_state [])) \<noteq> None
     \<longleftrightarrow>
     run_status
       [\<lparr>inv_action = Share,
         inv_task = Some \<lparr>file_id = Some ''f1'', file_name = Some ''a.mkv'', progress = None\<rparr>,
         inv_outcome = Resolved \<lparr>share_url = ''https://x/y'', pass_code = None,
                                  is_existing = Some False, share_id = None\<rparr>,
         inv_write = Written, inv_now_id = 5, inv_now_ts = 6\<rparr>,
        \<lparr>inv_action = Share,
         inv_task = Some \<lparr>file_id = Some ''f1'', file_name = Some ''a.mkv'', progress = None\<rparr>,
         inv_outcome = Rejected \<lparr>response = None, message = ''Network Error'', code = None\<rparr>,
         inv_write = Written, inv_now_id = 7, inv_now_ts = 8\<rparr>]
       (initial_state []) Idle = Succeeded)
   \<and> \<not> (shareError (run
       [\<lparr>inv_action = Share,
         inv_task = Some \<lparr>file_id = None, file_name = Some ''a.mkv'', progress = Some 40\<rparr>,
         inv_outcome = Rejected \<lparr>response = None, message = ''Network Error'', code = None\<rparr>,
         inv_write = Written, inv_now_id = 5, inv_now_ts = 6\<rparr>]
       (initial_state [])) \<noteq> None
     \<longleftrightarrow>
     run_status
       [\<lparr>inv_action = Share,
         inv_task = Some \<lparr>file_id = None, file_name = Some ''a.mkv'', progress = Some 40\<rparr>,
         inv_outcome = Rejected \<lparr>response = None, message = ''Network Error'', code = None\<rparr>,
         inv_write = Written, inv_now_id = 5, inv_now_ts = 6\<rparr>]
       (initial_state []) Idle = Failed)"
  using run_success_then_failure run_refused by simp

text \<open>
  The failure of C4 does not hang on how a status is assigned to the states: after a
  success followed by a failure the result and the error are present together, so no
  assignment of a status to the states makes both equivalences of the claim hold in every
  reachable state.
\<close>

lemma no_status_reading:
  "\<not> (\<exists>reading :: share_state \<Rightarrow> status. \<forall>invs stored.
        (shareData (run invs (initial_state stored)) \<noteq> None
           \<longleftrightarrow> reading (run invs (initial_state stored)) = Succeeded)
      \<and> (shareError (run invs (initial_state stored)) \<noteq> None
           \<longleftrightarrow> reading (run invs (initial_state stored)) = Failed))"
proof
  assume "\<exists>reading :: share_state \<Rightarrow> status. \<forall>invs stored.
        (shareData (run invs (initial_state stored)) \<noteq> None
           \<longleftrightarrow> reading (run invs (initial_state stored)) = Succeeded)
      \<and> (shareError (run invs (initial_state stored)) \<noteq> None
           \<longleftrightarrow> reading (run invs (initial_state stored)) = Failed)"
  then obtain reading :: "share_state \<Rightarrow> status" where r: "\<And>invs stored.
        (shareData (run invs (initial_state stored)) \<noteq> None
           \<longleftrightarrow> reading (run invs (initial_state stored)) = Succeeded)
      \<and> (shareError (run invs (initial_state stored)) \<noteq> None
           \<longleftrightarrow> reading (run invs (initial_state stored)) = Failed)"
    by blast
  let ?invs = "[\<lparr>inv_action = Share,
         inv_task = Some \<lparr>file_id = Some ''f1'', file_name = Some ''a.mkv'', progress = None\<rparr>,
         inv_outcome = Resolved \<lparr>share_url = ''https://x/y'', pass_code = None,
                                  is_existing = Some False, share_id = None\<rparr>,
         inv_write = Written, inv_now_id = 5, inv_now_ts = 6\<rparr>,
        \<lparr>inv_action = Share,
         inv_task = Some \<lparr>file_id = Some ''f1'', file_name = Some ''a.mkv'', progress = None\<rparr>,
         inv_outcome = Rejected \<lparr>response = None, message = ''Network Error'', code = None\<rparr>,
         inv_write = Written, inv_now_id = 7, inv_now_ts = 8\<rparr>]"
  have "shareData (run ?invs (initial_state [])) \<noteq> None"
    and "shareError (run ?invs (initial_state [])) \<noteq> None"
    using run_success_then_failure by simp_all
  then have "reading (run ?invs (initial_state [])) = Succeeded"
    and "reading (run ?invs (initial_state [])) = Failed"
    using r [of ?invs "[]"] by blast+
  then show False by simp
qed

theorem run_status_cells_witness:
  "list_all write_ok
       [\<lparr>inv_action = Share,
         inv_task = Some \<lparr>file_id = Some ''f1'', file_name = Some ''a.mkv'', progress = None\<rparr>,
         inv_outcome = Resolved \<lparr>share_url = ''https://x/y'', pass_code = None,
                                  is_existing = Some False, share_id = None\<rparr>,
         inv_write = Written, inv_now_id = 5, inv_now_ts = 6\<rparr>,
        \<lparr>inv_action = Retry,
         inv_task = Some \<lparr>file_id = None, file_name = Some ''a.mkv'', progress = None\<rparr>,
         inv_outcome = Rejected \<lparr>response = None, message = ''Network Error'', code = None\<rparr>,
         inv_write = Written, inv_now_id = 7, inv_now_ts = 8\<rparr>]
   \<and> run_status
       [\<lparr>inv_action = Share,
         inv_task = Some \<lparr>file_id = Some ''f1'', file_name = Some ''a.mkv'', progress = None\<rparr>,
         inv_outcome = Resolved \<lparr>share_url = ''https://x/y'', pass_code = None,
                                  is_existing = Some False, share_id = None\<rparr>,
         inv_write = Written, inv_now_id = 5, inv_now_ts = 6\<rparr>,
        \<lparr>inv_action = Retry,
         inv_task = Some \<lparr>file_id = None, file_name = Some ''a.mkv'', progress = None\<rparr>,
         inv_outcome = Rejected \<lparr>response = None, message = ''Network Error'', code = None\<rparr>,
         inv_write = Written, inv_now_id = 7, inv_now_ts = 8\<rparr>]
       (initial_state []) Idle = Succeeded
   \<and> shareData (run
       [\<lparr>inv_action = Share,
         inv_task = Some \<lparr>file_id = Some ''f1'', file_name = Some ''a.mkv'', progress = None\<rparr>,
         inv_outcome = Resolved \<lparr>share_url = ''https://x/y'', pass_code = None,
                                  is_existing = Some False, share_id = None\<rparr>,
         inv_write = Written, inv_now_id = 5, inv_now_ts = 6\<rparr>,
        \<lparr>inv_action = Retry,
         inv_task = Some \<lparr>file_id = None, file_name = Some ''a.mkv'', progress = None\<rparr>,
         inv_outcome = Rejected \<lparr>response = None, message = ''Network Error'', code = None\<rparr>,
         inv_write = Written, inv_now_id = 7, inv_now_ts = 8\<rparr>]
       (initial_state [])) \<noteq> None
   \<and> shareError (run
       [\<lparr>inv_action = Share,
         inv_task = Some \<lparr>file_id = Some ''f1'', file_name = Some ''a.mkv'', progress = None\<rparr>,
         inv_outcome = Resolved \<lparr>share_url = ''https://x/y'', pass_code = None,
                                  is_existing = Some False, share_id = None\<rparr>,
         inv_write = Written, inv_now_id = 5, inv_now_ts = 6\<rparr>,
        \<lparr>inv_action = Retry,
         inv_task = Some \<lparr>file_id = None, file_name = Some ''a.mkv'', progress = None\<rparr>,
         inv_outcome = Rejected \<lparr>response = None, message = ''Network Error'', code = None\<rparr>,
         inv_write = Written, inv_now_id = 7, inv_now_ts = 8\<rparr>]
       (initial_state [])) \<noteq> None"
proof -
  let ?a = "\<lparr>inv_action = Share,
         inv_task = Some \<lparr>file_id = Some ''f1'', file_name = Some ''a.mkv'', progress = None\<rparr>,
         inv_outcome = Resolved \<lparr>share_url = ''https://x/y'', pass_code = None,
                                  is_existing = Some False, share_id = None\<rparr>,
         inv_write = Written, inv_now_id = 5, inv_now_ts = 6\<rparr>"
  let ?b = "\<lparr>inv_action = Retry,
         inv_task = Some \<lparr>file_id = None, file_name = Some ''a.mkv'', progress = None\<rparr>,
         inv_outcome = Rejected \<lparr>response = None, message = ''Network Error'', code = None\<rparr>,
         inv_write = Written, inv_now_id = 7, inv_now_ts = 8\<rparr>"
  let ?st = "run [?a, ?b] (initial_state [])"
  have w: "list_all write_ok [?a, ?b]"
    by (simp add: write_ok_def)
  have sa: "sent ?a" "succeeds ?a" and sb: "\<not> sent ?b" "\<not> succeeds ?b"
    by (simp_all add: sent_def succeeds_def task_file_id_def truthy_str_def)
  note cells = run_status_cells [OF w, of "[]"]
  have f: "filter sent [?a, ?b] = [?a]"
    using sa(1) sb(1) by simp
  have a: "run_status [?a, ?b] (initial_state []) Idle = Succeeded"
    using cells sa(2) unfolding f by simp
  have b: "shareData ?st \<noteq> None"
    using cells a by blast
  have "[?a, ?b] \<noteq> [] \<and> \<not> succeeds (last [?a, ?b])"
    using sb(2) by simp
  then have c: "shareError ?st \<noteq> None"
    using cells by blast
  show ?thesis
    using w a b c by blast
qed

end
